theory Spec2Isabelle
  imports Complex_Main
begin

section \<open>Numbers and vectors\<close>

text \<open>
  The program is TypeScript; every \<^verbatim>\<open>number\<close> is modelled as an exact \<^typ>\<open>real\<close>
  (rounding of IEEE doubles is not modelled), every loop counter and array index as a
  \<^typ>\<open>nat\<close>.
\<close>

datatype Vector3 = Vector3 (vx: real) (vy: real) (vz: real)

section \<open>Configuration (WoodProject, lines 24--33)\<close>

definition NUM_TAILS :: nat where "NUM_TAILS = 4"
definition BOARD_WIDTH :: real where "BOARD_WIDTH = 2"
definition BOARD_HEIGHT_A :: real where "BOARD_HEIGHT_A = 2.5"
definition TABLE_OFFSET :: real where "TABLE_OFFSET = 0.00"
definition GAP_HEIGHT :: real where "GAP_HEIGHT = 0.15"
definition HAMMER_TAPS_REQUIRED :: nat where "HAMMER_TAPS_REQUIRED = 3"
definition TOTAL_TAIL_RATIO :: real where "TOTAL_TAIL_RATIO = 0.65"

section \<open>Geometry helpers for the box\<close>

text \<open>
  \<^verbatim>\<open>const TAIL_WIDTH_TIP = (BOARD_WIDTH * TOTAL_TAIL_RATIO) / NUM_TAILS;\<close>
  The three constants the expression reads are parameters of \<open>TAIL_WIDTH_TIP_of\<close>; the
  shipped value is \<open>TAIL_WIDTH_TIP\<close>.
\<close>

definition TAIL_WIDTH_TIP_of :: "real \<Rightarrow> real \<Rightarrow> nat \<Rightarrow> real" where
  "TAIL_WIDTH_TIP_of boardWidth ratio numTails = (boardWidth * ratio) / real numTails"

definition TAIL_WIDTH_TIP :: real where
  "TAIL_WIDTH_TIP = TAIL_WIDTH_TIP_of BOARD_WIDTH TOTAL_TAIL_RATIO NUM_TAILS"

text \<open>
  The loop \<^verbatim>\<open>for (let i = 0; i < NUM_TAILS; i++) { centers.push(currentX); currentX += pitch; }\<close>
  with \<open>k\<close> iterations left to run.
\<close>

fun push_centers :: "nat \<Rightarrow> real \<Rightarrow> real \<Rightarrow> real list" where
  "push_centers 0 currentX pitch = []"
| "push_centers (Suc k) currentX pitch = currentX # push_centers k (currentX + pitch) pitch"

definition pinWidth_of :: "real \<Rightarrow> nat \<Rightarrow> real \<Rightarrow> real" where
  "pinWidth_of boardWidth numTails tailWidthTip =
     (let totalTailWidth = tailWidthTip * real numTails;
          remainingWidth = boardWidth - totalTailWidth
      in remainingWidth / (real numTails + 1))"

definition TAIL_CENTERS_of :: "real \<Rightarrow> nat \<Rightarrow> real \<Rightarrow> real list" where
  "TAIL_CENTERS_of boardWidth numTails tailWidthTip =
     (let pinWidth = pinWidth_of boardWidth numTails tailWidthTip;
          pitch = tailWidthTip + pinWidth;
          currentX = - boardWidth / 2 + pinWidth + tailWidthTip / 2
      in push_centers numTails currentX pitch)"

definition TAIL_CENTERS :: "real list" where
  "TAIL_CENTERS = TAIL_CENTERS_of BOARD_WIDTH NUM_TAILS TAIL_WIDTH_TIP"

section \<open>Phases, effects, calls and renders\<close>

text \<open>The enum \<^verbatim>\<open>GamePhase\<close> of types.ts.\<close>

datatype GamePhase =
    INTRO | TIMBER | CLAMPING | MARKING | CUTTING | ASSEMBLY_PREP | ASSEMBLY
  | CUTTING_BACK | ASSEMBLY_C | CUTTING_TOP | ASSEMBLY_D | SUCCESS

text \<open>
  A handler of a project component reads the component's props and state and calls
  functions it was given: the props \<^verbatim>\<open>onPhaseComplete\<close>, \<^verbatim>\<open>setProgress\<close>,
  \<^verbatim>\<open>setOrbitEnabled\<close>, \<^verbatim>\<open>setRawWoodCount\<close> and the handle behind \<^verbatim>\<open>sawdustRef\<close>.
  In the model a handler returns the new component state together with the list of these
  calls, in the order the code makes them.
\<close>

datatype effect =
    SpawnBurst Vector3        \<comment> \<open>\<^verbatim>\<open>sawdustRef.current?.spawnBurst(pos)\<close>\<close>
  | ClearSawdust              \<comment> \<open>\<^verbatim>\<open>sawdustRef.current?.clear()\<close>\<close>
  | PhaseComplete             \<comment> \<open>\<^verbatim>\<open>onPhaseComplete()\<close>\<close>
  | PhaseCompleteAfter nat    \<comment> \<open>\<^verbatim>\<open>setTimeout(onPhaseComplete, ms)\<close>\<close>
  | SetProgress real          \<comment> \<open>\<^verbatim>\<open>setProgress(v)\<close>\<close>
  | SetOrbitEnabled bool      \<comment> \<open>\<^verbatim>\<open>setOrbitEnabled(b)\<close>\<close>
  | RawWoodIncrement          \<comment> \<open>\<^verbatim>\<open>setRawWoodCount(prev => prev + 1)\<close>\<close>

text \<open>
  A handler is a function created by a render of its component: it reads the state cells
  as that render captured them (\<^verbatim>\<open>const newWastes = [...targetState]\<close>). A state setter
  called with a value (\<^verbatim>\<open>setTargetState(newWastes)\<close>) queues that value; the next render
  starts from the queued values and creates the handlers again. RouterTool calls
  \<^verbatim>\<open>onCut\<close> on every animation frame while the tool is dragged, whether or not the
  component has rendered since the previous frame. Within one phase instance a handler
  therefore sees a sequence of calls and renders.
\<close>

datatype 'i event = Call 'i | Render



text \<open>The arguments of the calls of a sequence of events.\<close>

fun calls :: "'i event list \<Rightarrow> 'i list" where
  "calls [] = []"
| "calls (Call i # es) = i # calls es"
| "calls (Render # es) = calls es"

text \<open>The sequence of events in which the component renders after every call.\<close>

definition each_rendered :: "'i list \<Rightarrow> 'i event list" where
  "each_rendered is = concat (map (\<lambda>i. [Call i, Render]) is)"


section \<open>Marking targets (the forEach of handleCut and of handleDrill)\<close>


text \<open>\<^verbatim>\<open>flags.every(f => f)\<close>\<close>

definition every :: "bool list \<Rightarrow> bool" where
  "every flags = list_all (\<lambda>f. f) flags"

section \<open>BoxProject: state and handleCut\<close>

datatype AssemblyState = Dragging | Hammering | Done

datatype BoardRef = TailBoardA | TailBoardC | TopBoardD

text \<open>
  The state of a BoxProject component: its \<^verbatim>\<open>useState\<close> cells and the positions of the
  three groups behind its refs (\<open>None\<close> while a ref is not attached).
\<close>

record BoxState =
  wastesCutBFront :: "bool list"
  wastesCutBBack :: "bool list"
  wastesCutD :: "bool list"
  assemblyState :: AssemblyState
  hammerTaps :: nat
  tailBoardA :: "Vector3 option"
  tailBoardC :: "Vector3 option"
  topBoardD :: "Vector3 option"

text \<open>The initial \<^verbatim>\<open>useState\<close> values and the positions the JSX gives the groups.\<close>

definition BoxProject_init :: BoxState where
  "BoxProject_init =
     \<lparr> wastesCutBFront = replicate NUM_TAILS False,
       wastesCutBBack = replicate NUM_TAILS False,
       wastesCutD = replicate NUM_TAILS False,
       assemblyState = Dragging,
       hammerTaps = 0,
       tailBoardA = Some (Vector3 0 2.5 0),
       tailBoardC = Some (Vector3 0 2.5 (- 2.6)),
       topBoardD = Some (Vector3 0 5 0) \<rparr>"







section \<open>StoolProject: state and handleDrill\<close>

datatype LegsState = LegsHidden | LegsDragging | LegsHammering | LegsDone


text \<open>
  \<open>legsY\<close> is \<^verbatim>\<open>legsRef.current.position.y\<close>, \<open>None\<close> while the legs group is not rendered.
\<close>

record StoolState =
  holesDrilled :: "bool list"
  legsState :: LegsState
  stoolHammerTaps :: nat
  legsY :: "real option"

definition StoolProject_init :: StoolState where
  "StoolProject_init =
     \<lparr> holesDrilled = [False, False, False, False],
       legsState = LegsHidden,
       stoolHammerTaps = 0,
       legsY = None \<rparr>"




section \<open>BoxProject: assembly, hammering and the phase effect\<close>

definition boardPosition :: "BoardRef \<Rightarrow> BoxState \<Rightarrow> Vector3 option" where
  "boardPosition boardRef s =
     (case boardRef of TailBoardA \<Rightarrow> tailBoardA s | TailBoardC \<Rightarrow> tailBoardC s
      | TopBoardD \<Rightarrow> topBoardD s)"

definition setBoardPosition :: "BoardRef \<Rightarrow> Vector3 \<Rightarrow> BoxState \<Rightarrow> BoxState" where
  "setBoardPosition boardRef v s =
     (case boardRef of TailBoardA \<Rightarrow> s\<lparr>tailBoardA := Some v\<rparr>
      | TailBoardC \<Rightarrow> s\<lparr>tailBoardC := Some v\<rparr>
      | TopBoardD \<Rightarrow> s\<lparr>topBoardD := Some v\<rparr>)"

text \<open>
  \<open>handleAssemblyDrag\<close>; \<open>pointY\<close> is the height at which the pointer ray meets the drag
  plane.
\<close>

definition handleAssemblyDrag ::
  "BoxState \<Rightarrow> real \<Rightarrow> BoardRef \<Rightarrow> real \<Rightarrow> BoxState \<times> effect list" where
  "handleAssemblyDrag s pointY boardRef targetY =
     (if assemblyState s \<noteq> Dragging then (s, [])
      else case boardPosition boardRef s of
        None \<Rightarrow> (s, [SetOrbitEnabled False])
      | Some p \<Rightarrow>
          let stopY = targetY + GAP_HEIGHT;
              currentY = max stopY (min (pointY + 1) (targetY + 3));
              z = (if boardRef = TailBoardC then - 2.6 else 0);
              s1 = setBoardPosition boardRef (Vector3 0 currentY z) s
          in if currentY \<le> stopY + 0.05
             then ((setBoardPosition boardRef (Vector3 0 stopY z) s1)\<lparr>assemblyState := Hammering\<rparr>,
                   [SetOrbitEnabled False, SetOrbitEnabled True])
             else (s1, [SetOrbitEnabled False]))"

definition handleHammerClick :: "BoxState \<Rightarrow> real \<Rightarrow> BoardRef \<Rightarrow> BoxState \<times> effect list" where
  "handleHammerClick s targetY boardRef =
     (if assemblyState s \<noteq> Hammering then (s, [])
      else
        let newTaps = hammerTaps s + 1;
            s1 = s\<lparr>hammerTaps := newTaps\<rparr>;
            remainingGap = GAP_HEIGHT * (1 - real newTaps / real HAMMER_TAPS_REQUIRED);
            nextY = targetY + max 0 remainingGap;
            s2 = (case boardPosition boardRef s1 of
                    None \<Rightarrow> s1
                  | Some p \<Rightarrow> setBoardPosition boardRef (Vector3 (vx p) nextY (vz p)) s1)
        in if newTaps \<ge> HAMMER_TAPS_REQUIRED
           then (s2\<lparr>assemblyState := Done\<rparr>, [PhaseCompleteAfter 500])
           else (s2, []))"

text \<open>The \<^verbatim>\<open>useEffect(() => {...}, [phase])\<close> of BoxProject.\<close>

definition BoxProject_effect :: "GamePhase \<Rightarrow> BoxState \<Rightarrow> BoxState \<times> effect list" where
  "BoxProject_effect phase s =
     (let (s1, out) =
            (if phase = INTRO
             then (s\<lparr> wastesCutBFront := replicate NUM_TAILS False,
                      wastesCutBBack := replicate NUM_TAILS False,
                      wastesCutD := replicate NUM_TAILS False,
                      tailBoardA := map_option (\<lambda>_. Vector3 0 2.5 0) (tailBoardA s),
                      tailBoardC := map_option (\<lambda>_. Vector3 0 2.5 (- 2.6)) (tailBoardC s),
                      topBoardD := map_option (\<lambda>_. Vector3 0 5 0) (topBoardD s) \<rparr>,
                   [ClearSawdust])
             else (s, []));
          s2 = (if phase = ASSEMBLY \<or> phase = ASSEMBLY_C \<or> phase = ASSEMBLY_D
                then s1\<lparr>assemblyState := Dragging, hammerTaps := 0\<rparr> else s1);
          s3 = (if phase = ASSEMBLY_PREP
                then s2\<lparr>tailBoardA := map_option (\<lambda>_. Vector3 0 2.5 0) (tailBoardA s2)\<rparr> else s2);
          s4 = (if phase = CUTTING_BACK
                then s3\<lparr>tailBoardC := map_option (\<lambda>_. Vector3 0 2.5 (- 2.6)) (tailBoardC s3)\<rparr>
                else s3);
          s5 = (if phase = CUTTING_TOP
                then s4\<lparr>topBoardD := map_option (\<lambda>_. Vector3 0 5 0) (topBoardD s4)\<rparr> else s4)
      in (s5, out))"

section \<open>StoolProject: legs, hammering and the phase effect\<close>

text \<open>\<open>handleLegDrag\<close>; \<open>pointY\<close> is the height at which the pointer ray meets the drag plane.\<close>

definition handleLegDrag :: "StoolState \<Rightarrow> real \<Rightarrow> StoolState \<times> effect list" where
  "handleLegDrag s pointY =
     (if legsState s \<noteq> LegsDragging \<or> legsY s = None then (s, [])
      else
        let worldMaxY = 5.0;
            worldMinY = 0.5;
            clampedWorldY = max worldMinY (min pointY worldMaxY);
            s1 = s\<lparr>legsY := Some (- clampedWorldY)\<rparr>
        in if clampedWorldY \<le> worldMinY + 0.1
           then (s1\<lparr>legsY := Some (- worldMinY), legsState := LegsHammering\<rparr>,
                 [SetOrbitEnabled False, SetOrbitEnabled True])
           else (s1, [SetOrbitEnabled False]))"

definition handleHammer :: "StoolState \<Rightarrow> StoolState \<times> effect list" where
  "handleHammer s =
     (if legsState s \<noteq> LegsHammering \<or> legsY s = None then (s, [])
      else
        let newTaps = stoolHammerTaps s + 1;
            s1 = s\<lparr>stoolHammerTaps := newTaps\<rparr>;
            startWorldY = 0.5;
            endWorldY = 0.05;
            progress = real newTaps / real HAMMER_TAPS_REQUIRED;
            currentWorldY = startWorldY - ((startWorldY - endWorldY) * progress);
            s2 = s1\<lparr>legsY := Some (- currentWorldY)\<rparr>
        in if newTaps \<ge> HAMMER_TAPS_REQUIRED
           then (s2\<lparr>legsState := LegsDone\<rparr>, [PhaseCompleteAfter 600])
           else (s2, []))"

text \<open>
  The \<^verbatim>\<open>useEffect(() => {...}, [phase])\<close> of StoolProject. It has no branch for INTRO.
\<close>

definition StoolProject_effect :: "GamePhase \<Rightarrow> StoolState \<Rightarrow> StoolState \<times> effect list" where
  "StoolProject_effect phase s =
     (if phase = ASSEMBLY then (s\<lparr>legsState := LegsDragging, stoolHammerTaps := 0\<rparr>, [])
      else (s, []))"

text \<open>
  The legs group and its ref exist while the phase is ASSEMBLY or SUCCESS; the JSX places a
  newly rendered group at local \<open>y = -4\<close>.
\<close>

definition StoolProject_legs :: "GamePhase \<Rightarrow> StoolState \<Rightarrow> StoolState" where
  "StoolProject_legs phase s =
     (if phase = ASSEMBLY \<or> phase = SUCCESS
      then (case legsY s of None \<Rightarrow> s\<lparr>legsY := Some (- 4)\<rparr> | Some y \<Rightarrow> s)
      else s\<lparr>legsY := None\<rparr>)"

section \<open>The ambient random source\<close>

text \<open>
  \<^verbatim>\<open>Math.random()\<close> is modelled by the stream of the values it will return: a call takes
  the head and leaves the tail.
\<close>

type_synonym rng = "nat \<Rightarrow> real"

definition Math_random :: "rng \<Rightarrow> real \<times> rng" where
  "Math_random g = (g 0, \<lambda>n. g (Suc n))"

section \<open>TimberStage\<close>

text \<open>\<^verbatim>\<open>Math.atan2(y, x)\<close>\<close>

definition Math_atan2 :: "real \<Rightarrow> real \<Rightarrow> real" where
  "Math_atan2 y x =
     (if 0 < x then arctan (y / x)
      else if x < 0 \<and> 0 \<le> y then arctan (y / x) + pi
      else if x < 0 \<and> y < 0 then arctan (y / x) - pi
      else if 0 < y then pi / 2
      else if y < 0 then - pi / 2
      else 0)"

text \<open>\<^verbatim>\<open>new THREE.Vector2(ax, az).distanceTo(new THREE.Vector2(bx, bz))\<close>\<close>

definition distanceTo :: "real \<times> real \<Rightarrow> real \<times> real \<Rightarrow> real" where
  "distanceTo a b = sqrt ((fst a - fst b)\<^sup>2 + (snd a - snd b)\<^sup>2)"

definition trees :: "(real \<times> real) list" where
  "trees = [(- 3, - 2), (3, 0)]"

definition saplings :: "(real \<times> real) list" where
  "saplings = [(- 4.5, - 3), (- 1.5, - 1), (4.5, 1.5), (1.5, 0.5), (- 2, 2)]"

record TimberState =
  treesCut :: "bool list"
  cutProgress :: "real list"
  fallRotation :: "real list"
  saplingWarningShow :: bool
  saplingWarningPos :: Vector3

definition TimberStage_init :: TimberState where
  "TimberStage_init =
     \<lparr> treesCut = [False, False], cutProgress = [0, 0], fallRotation = [0, 0],
       saplingWarningShow = False, saplingWarningPos = Vector3 0 0 0 \<rparr>"

text \<open>
  The loop over the saplings stops at the first one the saw touches:
  \<^verbatim>\<open>if (dist < 0.8 && sawPos.y < 1.5) { hittingSapling = true; ...; break; }\<close>
\<close>

definition touchesSapling :: "Vector3 \<Rightarrow> real \<times> real \<Rightarrow> bool" where
  "touchesSapling sawPos sapling \<longleftrightarrow>
     distanceTo (vx sawPos, vz sawPos) sapling < 0.8 \<and> vy sawPos < 1.5"

text \<open>
  The body of \<^verbatim>\<open>trees.forEach((tree, idx) => {...})\<close> over the remaining trees. The
  accumulator is the three copied arrays, \<open>changed\<close>, the calls made so far and the random
  source.
\<close>

fun forEach_tree ::
  "Vector3 \<Rightarrow> bool \<Rightarrow> (nat \<times> real \<times> real) list
    \<Rightarrow> real list \<times> bool list \<times> real list \<times> bool \<times> effect list \<times> rng
    \<Rightarrow> real list \<times> bool list \<times> real list \<times> bool \<times> effect list \<times> rng" where
  "forEach_tree sawPos hittingSapling [] acc = acc"
| "forEach_tree sawPos hittingSapling ((idx, tree) # rest)
      (newProgress, newTreesCut, newFallRotations, changed, out, g) =
     (if \<not> newTreesCut ! idx \<and> \<not> hittingSapling
      then
        let dist = distanceTo (vx sawPos, vz sawPos) tree;
            heightValid = (0 < vy sawPos \<and> vy sawPos < 3)
        in if dist < 1.2 \<and> heightValid
           then
             let newProgress1 = newProgress[idx := min 100 (newProgress ! idx + 2)];
                 (r, g1) = Math_random g;
                 (out1, g2) =
                   (if r > 0.8
                    then let (r1, ga) = Math_random g1; (r2, gb) = Math_random ga
                         in (out @ [SpawnBurst (Vector3 (fst tree + (r1 - 0.5) * 0.5) 0.5
                                                  (snd tree + (r2 - 0.5) * 0.5))], gb)
                    else (out, g1))
             in if newProgress1 ! idx \<ge> 100
                then
                  let dirX = fst tree - vx sawPos;
                      dirZ = snd tree - vz sawPos;
                      angle = Math_atan2 dirX dirZ
                  in forEach_tree sawPos hittingSapling rest
                       (newProgress1, newTreesCut[idx := True], newFallRotations[idx := angle],
                        True, out1 @ [RawWoodIncrement], g2)
                else forEach_tree sawPos hittingSapling rest
                       (newProgress1, newTreesCut, newFallRotations, True, out1, g2)
           else forEach_tree sawPos hittingSapling rest
                  (newProgress, newTreesCut, newFallRotations, changed, out, g)
      else forEach_tree sawPos hittingSapling rest
             (newProgress, newTreesCut, newFallRotations, changed, out, g))"

definition TimberStage_handleCut ::
  "rng \<Rightarrow> TimberState \<Rightarrow> Vector3 \<Rightarrow> (TimberState \<times> effect list) \<times> rng" where
  "TimberStage_handleCut g s sawPos =
     (let hit = find (touchesSapling sawPos) saplings;
          hittingSapling = (hit \<noteq> None);
          s1 = (case hit of
                  Some sapling \<Rightarrow>
                    s\<lparr>saplingWarningShow := True,
                      saplingWarningPos := Vector3 (fst sapling) 2 (snd sapling)\<rparr>
                | None \<Rightarrow> s\<lparr>saplingWarningShow := False\<rparr>)
      in case forEach_tree sawPos hittingSapling (enumerate 0 trees)
                (cutProgress s, treesCut s, fallRotation s, False, [], g)
         of (newProgress, newTreesCut, newFallRotations, changed, out, g') \<Rightarrow>
           if changed
           then ((s1\<lparr>cutProgress := newProgress, treesCut := newTreesCut,
                      fallRotation := newFallRotations\<rparr>,
                  out @ (if every newTreesCut then [PhaseCompleteAfter 3500] else [])), g')
           else ((s1, out), g'))"

section \<open>SawdustSystem\<close>

record Particle =
  active :: bool
  position :: Vector3
  velocity :: Vector3
  rotation :: Vector3
  rotSpeed :: Vector3
  scale :: real
  life :: real
  isPiled :: bool

text \<open>
  The state of one SawdustSystem component: the particle pool, whether the instanced mesh
  behind \<^verbatim>\<open>meshRef\<close> is attached, the \<^verbatim>\<open>count\<close> of that mesh, and the intervals that
  \<open>spawnBurst\<close> has started and that are still running, each with the position it was
  called with and its \<^verbatim>\<open>iter\<close>.
\<close>

record Sawdust =
  particles :: "Particle list"
  meshAttached :: bool
  meshCount :: nat
  intervals :: "(Vector3 \<times> nat) list"

definition count :: nat where "count = 1200"
definition burstCount :: nat where "burstCount = 60"
definition duration :: nat where "duration = 15"

definition SawdustSystem_init :: Sawdust where
  "SawdustSystem_init =
     \<lparr> particles = replicate count
         \<lparr> active = False, position = Vector3 0 0 0, velocity = Vector3 0 0 0,
           rotation = Vector3 0 0 0, rotSpeed = Vector3 0 0 0, scale = 1, life = 0,
           isPiled = False \<rparr>,
       meshAttached = True, meshCount = count, intervals = [] \<rparr>"

text \<open>
  What the body of \<^verbatim>\<open>if (!particles.current[i].active) {...}\<close> does to the particle: the
  fourteen random draws are taken in the order of the code (the last one picks the colour
  of the instance).
\<close>

definition activate :: "Vector3 \<Rightarrow> Particle \<Rightarrow> rng \<Rightarrow> Particle \<times> rng" where
  "activate pos p g0 =
     (let (r1, g1) = Math_random g0; (r2, g2) = Math_random g1; (r3, g3) = Math_random g2;
          (r4, g4) = Math_random g3; (r5, g5) = Math_random g4; (r6, g6) = Math_random g5;
          (r7, g7) = Math_random g6; (r8, g8) = Math_random g7; (r9, g9) = Math_random g8;
          (r10, g10) = Math_random g9; (r11, g11) = Math_random g10;
          (r12, g12) = Math_random g11; (r13, g13) = Math_random g12;
          (r14, g14) = Math_random g13;
          angle = r4 * pi * 2;
          force = 0.5 + r5 * 2.0
      in (p\<lparr> active := True, isPiled := False, life := 0,
              position := Vector3 (vx pos + (r1 - 0.5) * 0.1) (vy pos + r2 * 0.1)
                            (vz pos + (r3 - 0.5) * 0.1),
              velocity := Vector3 (sin angle * force) (2.5 + r6 * 3.0) (cos angle * force),
              rotation := Vector3 (r7 * pi) (r8 * pi) (r9 * pi),
              rotSpeed := Vector3 ((r10 - 0.5) * 15) ((r11 - 0.5) * 15) ((r12 - 0.5) * 15),
              scale := 0.5 + r13 * 0.7 \<rparr>, g14))"

text \<open>
  The loop \<^verbatim>\<open>for (let i = 0; i < count; i++)\<close> of one interval tick over the rest of
  the pool; it breaks once \<^verbatim>\<open>spawnedInBatch >= batch\<close>.
\<close>

fun spawn_loop :: "nat \<Rightarrow> Vector3 \<Rightarrow> Particle list \<Rightarrow> nat \<Rightarrow> rng \<Rightarrow> Particle list \<times> rng" where
  "spawn_loop batch pos [] spawnedInBatch g = ([], g)"
| "spawn_loop batch pos (p # ps) spawnedInBatch g =
     (if \<not> active p
      then case activate pos p g of (p', g') \<Rightarrow>
             if spawnedInBatch + 1 \<ge> batch then (p' # ps, g')
             else (case spawn_loop batch pos ps (spawnedInBatch + 1) g' of
                     (ps', g'') \<Rightarrow> (p' # ps', g''))
      else case spawn_loop batch pos ps spawnedInBatch g of (ps', g') \<Rightarrow> (p # ps', g'))"

definition spawnBurst :: "Vector3 \<Rightarrow> Sawdust \<Rightarrow> Sawdust" where
  "spawnBurst pos s = s\<lparr>intervals := intervals s @ [(pos, 0)]\<rparr>"

text \<open>One firing of the \<open>n\<close>-th running interval (the callback given to \<^verbatim>\<open>setInterval\<close>).\<close>

definition interval_tick :: "nat \<Rightarrow> Sawdust \<Rightarrow> rng \<Rightarrow> Sawdust \<times> rng" where
  "interval_tick n s g =
     (if n \<ge> length (intervals s) then (s, g)
      else case intervals s ! n of (pos, iter) \<Rightarrow>
        if \<not> meshAttached s
        then (s\<lparr>intervals := take n (intervals s) @ drop (Suc n) (intervals s)\<rparr>, g)
        else
          let batch = burstCount div duration
          in case spawn_loop batch pos (particles s) 0 g of (ps', g') \<Rightarrow>
               (s\<lparr> particles := ps',
                    intervals :=
                      (if iter + 1 \<ge> duration
                       then take n (intervals s) @ drop (Suc n) (intervals s)
                       else (intervals s)[n := (pos, iter + 1)]) \<rparr>, g'))"

definition clear :: "Sawdust \<Rightarrow> Sawdust" where
  "clear s =
     (let s1 = s\<lparr>particles := map (\<lambda>p. p\<lparr>active := False\<rparr>) (particles s)\<rparr>
      in if meshAttached s1 then s1\<lparr>meshCount := 0\<rparr> else s1)"

text \<open>The \<^verbatim>\<open>useFrame\<close> callback on one particle and on the pool.\<close>

definition frame_particle :: "real \<Rightarrow> Particle \<Rightarrow> rng \<Rightarrow> Particle \<times> rng" where
  "frame_particle dt p g =
     (let gravity = - 12; floorY = 0.01 in
      if active p \<and> \<not> isPiled p
      then
        let v = Vector3 (vx (velocity p) * 0.98) (vy (velocity p) + gravity * dt)
                  (vz (velocity p) * 0.98);
            q = Vector3 (vx (position p) + vx v * dt) (vy (position p) + vy v * dt)
                  (vz (position p) + vz v * dt);
            rot = Vector3 (vx (rotation p) + vx (rotSpeed p) * dt)
                    (vy (rotation p) + vy (rotSpeed p) * dt)
                    (vz (rotation p) + vz (rotSpeed p) * dt)
        in if vy q \<le> floorY
           then case Math_random g of (r, g') \<Rightarrow>
                  (p\<lparr> position := Vector3 (vx q) (floorY + r * 0.04) (vz q), isPiled := True,
                       velocity := Vector3 0 0 0, rotSpeed := Vector3 0 0 0,
                       scale := scale p * 0.9, rotation := Vector3 (pi / 2) (vy rot) (vz rot) \<rparr>,
                   g')
           else (p\<lparr>velocity := v, position := q, rotation := rot\<rparr>, g)
      else (p, g))"

fun frame_loop :: "real \<Rightarrow> Particle list \<Rightarrow> rng \<Rightarrow> Particle list \<times> rng" where
  "frame_loop dt [] g = ([], g)"
| "frame_loop dt (p # ps) g =
     (case frame_particle dt p g of (p', g') \<Rightarrow>
        case frame_loop dt ps g' of (ps', g'') \<Rightarrow> (p' # ps', g''))"

definition useFrame :: "real \<Rightarrow> Sawdust \<Rightarrow> rng \<Rightarrow> Sawdust \<times> rng" where
  "useFrame delta s g =
     (if \<not> meshAttached s then (s, g)
      else let dt = min delta 0.1
           in case frame_loop dt (particles s) g of (ps', g') \<Rightarrow> (s\<lparr>particles := ps'\<rparr>, g'))"

text \<open>
  Everything that can happen to a SawdustSystem: a call of its handle, a firing of one of
  its intervals, an animation frame, and the unmounting of its mesh.
\<close>

datatype sawdust_op =
    OpSpawnBurst Vector3 | OpIntervalTick nat | OpClear | OpFrame real | OpUnmount

fun sawdust_step :: "sawdust_op \<Rightarrow> Sawdust \<times> rng \<Rightarrow> Sawdust \<times> rng" where
  "sawdust_step (OpSpawnBurst pos) (s, g) = (spawnBurst pos s, g)"
| "sawdust_step (OpIntervalTick n) (s, g) = interval_tick n s g"
| "sawdust_step OpClear (s, g) = (clear s, g)"
| "sawdust_step (OpFrame delta) (s, g) = useFrame delta s g"
| "sawdust_step OpUnmount (s, g) = (s\<lparr>meshAttached := False\<rparr>, g)"

definition sawdust_run :: "sawdust_op list \<Rightarrow> rng \<Rightarrow> Sawdust" where
  "sawdust_run ops g = fst (fold sawdust_step ops (SawdustSystem_init, g))"

definition activeCount :: "Sawdust \<Rightarrow> nat" where
  "activeCount s = length (filter active (particles s))"

section \<open>App: nextPhase and handleCollectAndNext\<close>

record App =
  appPhase :: GamePhase
  appProgress :: real
  appLevel :: nat
  appInventory :: "string list"
  appRawWoodCount :: nat

definition App_init :: App where
  "App_init = \<lparr> appPhase = INTRO, appProgress = 0, appLevel = 1, appInventory = [],
                 appRawWoodCount = 0 \<rparr>"










section \<open>WoodProject: which project component is mounted\<close>

text \<open>
  \<^verbatim>\<open>WoodProject\<close> returns \<^verbatim>\<open><TimberStage/>\<close> when the phase is TIMBER, \<^verbatim>\<open><StoolProject/>\<close>
  when the level is 2, and \<^verbatim>\<open><BoxProject/>\<close> otherwise. Each of the three renders its own
  \<^verbatim>\<open><SawdustSystem ref={sawdustRef}/>\<close>.
\<close>

datatype Kind = KTimberStage | KStoolProject | KBoxProject

definition WoodProject :: "GamePhase \<Rightarrow> nat \<Rightarrow> Kind" where
  "WoodProject phase level =
     (if phase = TIMBER then KTimberStage
      else if level = 2 then KStoolProject
      else KBoxProject)"

text \<open>The mounted project component: its state and the state of its SawdustSystem.\<close>

datatype Mounted =
    TimberStage TimberState Sawdust
  | StoolProject StoolState Sawdust
  | BoxProject BoxState Sawdust


text \<open>The calls an effect makes on the handle behind \<^verbatim>\<open>sawdustRef\<close>, applied to it.\<close>

fun apply_sawdust :: "effect list \<Rightarrow> Sawdust \<Rightarrow> Sawdust" where
  "apply_sawdust [] sd = sd"
| "apply_sawdust (SpawnBurst pos # es) sd = apply_sawdust es (spawnBurst pos sd)"
| "apply_sawdust (ClearSawdust # es) sd = apply_sawdust es (clear sd)"
| "apply_sawdust (e # es) sd = apply_sawdust es sd"

text \<open>
  React keeps the state of a component while the element at its place has the same type
  and discards it when the type changes: the new component starts from the initial values
  of its \<^verbatim>\<open>useState\<close> cells, with a new SawdustSystem, and its effects run after this
  first render. An effect with the dependency list \<^verbatim>\<open>[phase]\<close> of a component that stays
  mounted runs again when the phase has changed.
\<close>

definition mount :: "Kind \<Rightarrow> GamePhase \<Rightarrow> Mounted" where
  "mount k phase =
     (case k of
        KTimberStage \<Rightarrow> TimberStage TimberStage_init SawdustSystem_init
      | KStoolProject \<Rightarrow>
          (case StoolProject_effect phase (StoolProject_legs phase StoolProject_init) of
             (t, out) \<Rightarrow> StoolProject t (apply_sawdust out SawdustSystem_init))
      | KBoxProject \<Rightarrow>
          (case BoxProject_effect phase BoxProject_init of
             (b, out) \<Rightarrow> BoxProject b (apply_sawdust out SawdustSystem_init)))"


text \<open>The application state together with the project component it renders.\<close>

record Session =
  sessApp :: App
  sessMounted :: Mounted

definition Session_init :: Session where
  "Session_init =
     \<lparr> sessApp = App_init,
       sessMounted = mount (WoodProject (appPhase App_init) (appLevel App_init))
                       (appPhase App_init) \<rparr>"




text \<open>
  Every completion array of the mounted component is all-false and none of its particles
  is active.
\<close>

fun targets_reset :: "Mounted \<Rightarrow> bool" where
  "targets_reset (TimberStage ts sd) \<longleftrightarrow> treesCut ts = [False, False] \<and> activeCount sd = 0"
| "targets_reset (StoolProject t sd) \<longleftrightarrow>
     holesDrilled t = [False, False, False, False] \<and> activeCount sd = 0"
| "targets_reset (BoxProject b sd) \<longleftrightarrow>
     wastesCutBFront b = replicate NUM_TAILS False
     \<and> wastesCutBBack b = replicate NUM_TAILS False
     \<and> wastesCutD b = replicate NUM_TAILS False
     \<and> activeCount sd = 0"

section \<open>Proofs\<close>

subsection \<open>Facts about the tail centers\<close>

lemma length_push_centers: "length (push_centers k x p) = k"
  by (induction k arbitrary: x) simp_all

lemma nth_push_centers: "i < k \<Longrightarrow> push_centers k x p ! i = x + real i * p"
proof (induction k arbitrary: x i)
  case 0
  then show ?case by simp
next
  case (Suc k)
  show ?case
  proof (cases i)
    case 0
    then show ?thesis by simp
  next
    case (Suc j)
    with Suc.prems have "j < k" by simp
    from Suc.IH [OF this, of "x + p"] Suc show ?thesis
      by (simp add: algebra_simps)
  qed
qed

lemma push_centers_increasing:
  assumes "0 < p"
  shows "sorted_wrt (<) (push_centers k x p)"
proof -
  have "push_centers k x p ! i < push_centers k x p ! j" if "i < j" "j < k" for i j
  proof -
    from that have "real i * p < real j * p"
      using assms by simp
    with that show ?thesis
      by (simp add: nth_push_centers)
  qed
  then show ?thesis
    by (simp add: sorted_wrt_iff_nth_less length_push_centers)
qed

lemma push_centers_pitch:
  "Suc i < k \<Longrightarrow> push_centers k x p ! Suc i - push_centers k x p ! i = p"
  by (simp add: nth_push_centers algebra_simps)

lemma push_centers_mirror:
  assumes "2 * x + (real k - 1) * p = 0"
  shows "rev (push_centers k x p) = map uminus (push_centers k x p)"
proof (rule nth_equalityI)
  show "length (rev (push_centers k x p)) = length (map uminus (push_centers k x p))"
    by simp
next
  fix i
  assume "i < length (rev (push_centers k x p))"
  then have i: "i < k"
    by (simp add: length_push_centers)
  then have "real (k - Suc i) = real k - 1 - real i"
    by (simp add: of_nat_diff)
  then have "x + real (k - Suc i) * p = - (x + real i * p)"
    using assms by (simp add: algebra_simps)
  with i show "rev (push_centers k x p) ! i = map uminus (push_centers k x p) ! i"
    by (simp add: rev_nth length_push_centers nth_push_centers)
qed

lemma centers_start_balanced:
  "2 * (- bw / 2 + pinWidth_of bw n tw + tw / 2)
     + (real n - 1) * (tw + pinWidth_of bw n tw) = 0"
proof -
  have "(real n + 1) * pinWidth_of bw n tw = bw - tw * real n"
    by (simp add: pinWidth_of_def Let_def)
  then show ?thesis
    by (simp add: algebra_simps)
qed

lemma pinWidth_pos: "real n * tw < bw \<Longrightarrow> 0 < pinWidth_of bw n tw"
  by (simp add: pinWidth_of_def Let_def mult.commute)

lemma pinWidth_nonpos: "bw \<le> real n * tw \<Longrightarrow> pinWidth_of bw n tw \<le> 0"
  by (simp add: pinWidth_of_def Let_def mult.commute divide_le_0_iff)


text \<open>
  C1. For every configuration with at least one tail, a non-negative tail width and
  \<open>tailCount \<times> tailWidth < boardWidth\<close>, the tail-center computation returns exactly
  \<open>tailCount\<close> x-coordinates; they are strictly increasing, consecutive centers differ by
  the constant pitch \<open>tailWidth + pinWidth\<close>, the sequence is symmetric about \<open>x = 0\<close>
  (reversing it negates it), and the pin width
  \<open>(boardWidth - tailCount \<times> tailWidth) / (tailCount + 1)\<close> is non-negative.
\<close>

theorem C1_tail_centers:
  assumes "1 \<le> n" and "0 \<le> tw" and "real n * tw < bw"
  shows "length (TAIL_CENTERS_of bw n tw) = n
    \<and> sorted_wrt (<) (TAIL_CENTERS_of bw n tw)
    \<and> (\<forall>i. Suc i < n \<longrightarrow>
          TAIL_CENTERS_of bw n tw ! Suc i - TAIL_CENTERS_of bw n tw ! i
            = tw + pinWidth_of bw n tw)
    \<and> rev (TAIL_CENTERS_of bw n tw) = map uminus (TAIL_CENTERS_of bw n tw)
    \<and> pinWidth_of bw n tw = (bw - real n * tw) / (real n + 1)
    \<and> 0 \<le> pinWidth_of bw n tw"
proof -
  have pin: "0 < pinWidth_of bw n tw"
    using assms(3) by (rule pinWidth_pos)
  with assms(2) have pitch: "0 < tw + pinWidth_of bw n tw"
    by simp
  have "sorted_wrt (<) (TAIL_CENTERS_of bw n tw)"
    using pitch by (simp add: TAIL_CENTERS_of_def Let_def push_centers_increasing)
  moreover have "rev (TAIL_CENTERS_of bw n tw) = map uminus (TAIL_CENTERS_of bw n tw)"
    unfolding TAIL_CENTERS_of_def Let_def
    by (rule push_centers_mirror) (rule centers_start_balanced)
  moreover have "pinWidth_of bw n tw = (bw - real n * tw) / (real n + 1)"
    by (simp add: pinWidth_of_def Let_def mult.commute)
  ultimately show ?thesis
    using pin by (simp add: TAIL_CENTERS_of_def Let_def length_push_centers push_centers_pitch)
qed

theorem C1_tail_centers_shipped:
  "1 \<le> NUM_TAILS \<and> 0 \<le> TAIL_WIDTH_TIP \<and> real NUM_TAILS * TAIL_WIDTH_TIP < BOARD_WIDTH
    \<and> length TAIL_CENTERS = 4
    \<and> sorted_wrt (<) TAIL_CENTERS
    \<and> TAIL_CENTERS ! 1 - TAIL_CENTERS ! 0 = 0.465
    \<and> TAIL_CENTERS ! 2 - TAIL_CENTERS ! 1 = 0.465
    \<and> TAIL_CENTERS ! 3 - TAIL_CENTERS ! 2 = 0.465
    \<and> rev TAIL_CENTERS = map uminus TAIL_CENTERS
    \<and> pinWidth_of BOARD_WIDTH NUM_TAILS TAIL_WIDTH_TIP = 0.14"
proof -
  have n: "1 \<le> NUM_TAILS"
    by (simp add: NUM_TAILS_def)
  have tw: "0 \<le> TAIL_WIDTH_TIP"
    by (simp add: TAIL_WIDTH_TIP_def TAIL_WIDTH_TIP_of_def BOARD_WIDTH_def TOTAL_TAIL_RATIO_def
        NUM_TAILS_def)
  have lt: "real NUM_TAILS * TAIL_WIDTH_TIP < BOARD_WIDTH"
    by (simp add: TAIL_WIDTH_TIP_def TAIL_WIDTH_TIP_of_def BOARD_WIDTH_def TOTAL_TAIL_RATIO_def
        NUM_TAILS_def)
  have pin: "pinWidth_of BOARD_WIDTH NUM_TAILS TAIL_WIDTH_TIP = 0.14"
    by (simp add: pinWidth_of_def TAIL_WIDTH_TIP_def TAIL_WIDTH_TIP_of_def BOARD_WIDTH_def
        TOTAL_TAIL_RATIO_def NUM_TAILS_def Let_def)
  have tip: "TAIL_WIDTH_TIP = 0.325"
    by (simp add: TAIL_WIDTH_TIP_def TAIL_WIDTH_TIP_of_def BOARD_WIDTH_def
        TOTAL_TAIL_RATIO_def NUM_TAILS_def)
  from C1_tail_centers [OF n tw lt] n tw lt pin tip show ?thesis
    by (simp add: TAIL_CENTERS_def NUM_TAILS_def eval_nat_numeral)
qed

text \<open>
  C8 (as stated in the specification). A degenerate configuration,
  \<open>tailCount \<times> tailWidth \<ge> boardWidth\<close>, would make the computation fail or return an
  empty sequence. The code has no such check: with board width 2, four tails and a total
  tail ratio of 1.5 (tail width 0.75, pin width -0.2) it returns four centers.
\<close>

theorem C8_degenerate_counterexample:
  "BOARD_WIDTH \<le> real NUM_TAILS * TAIL_WIDTH_TIP_of BOARD_WIDTH 1.5 NUM_TAILS
    \<and> pinWidth_of BOARD_WIDTH NUM_TAILS (TAIL_WIDTH_TIP_of BOARD_WIDTH 1.5 NUM_TAILS) < 0
    \<and> TAIL_CENTERS_of BOARD_WIDTH NUM_TAILS (TAIL_WIDTH_TIP_of BOARD_WIDTH 1.5 NUM_TAILS)
        = [- 0.825, - 0.275, 0.275, 0.825]"
  by (simp add: TAIL_CENTERS_of_def pinWidth_of_def TAIL_WIDTH_TIP_of_def BOARD_WIDTH_def
      NUM_TAILS_def Let_def eval_nat_numeral)

text \<open>
  C8 (amended). The tail-center computation has no validation: for a degenerate
  configuration it still returns \<open>tailCount\<close> centers, uniformly pitched and symmetric
  about \<open>x = 0\<close>, computed with a pin width that is zero or negative; it never returns an
  empty sequence for \<open>tailCount \<ge> 1\<close>.
\<close>

theorem C8_degenerate_no_validation:
  assumes "1 \<le> n" and "bw \<le> real n * tw"
  shows "length (TAIL_CENTERS_of bw n tw) = n
    \<and> TAIL_CENTERS_of bw n tw \<noteq> []
    \<and> (\<forall>i. Suc i < n \<longrightarrow>
          TAIL_CENTERS_of bw n tw ! Suc i - TAIL_CENTERS_of bw n tw ! i
            = tw + pinWidth_of bw n tw)
    \<and> rev (TAIL_CENTERS_of bw n tw) = map uminus (TAIL_CENTERS_of bw n tw)
    \<and> pinWidth_of bw n tw \<le> 0"
proof -
  have len: "length (TAIL_CENTERS_of bw n tw) = n"
    by (simp add: TAIL_CENTERS_of_def Let_def length_push_centers)
  with assms(1) have "TAIL_CENTERS_of bw n tw \<noteq> []"
    by auto
  moreover have "rev (TAIL_CENTERS_of bw n tw) = map uminus (TAIL_CENTERS_of bw n tw)"
    unfolding TAIL_CENTERS_of_def Let_def
    by (rule push_centers_mirror) (rule centers_start_balanced)
  moreover have "pinWidth_of bw n tw \<le> 0"
    using assms(2) by (rule pinWidth_nonpos)
  ultimately show ?thesis
    using len by (simp add: TAIL_CENTERS_of_def Let_def push_centers_pitch)
qed

theorem C8_degenerate_no_validation_witness:
  "1 \<le> (4::nat) \<and> (2::real) \<le> real (4::nat) * 0.75
    \<and> length (TAIL_CENTERS_of 2 4 0.75) = 4
    \<and> TAIL_CENTERS_of 2 4 0.75 \<noteq> []
    \<and> pinWidth_of 2 4 0.75 \<le> 0"
proof -
  have n: "1 \<le> (4::nat)" by simp
  have ge: "(2::real) \<le> real (4::nat) * 0.75" by simp
  from C8_degenerate_no_validation [OF n ge] n ge show ?thesis
    by simp
qed

subsection \<open>The marking loop and runs of a marking handler\<close>





lemma each_rendered_Nil [simp]: "each_rendered [] = []"
  by (simp add: each_rendered_def)

lemma each_rendered_Cons [simp]: "each_rendered (i # is) = Call i # Render # each_rendered is"
  by (simp add: each_rendered_def)


lemma calls_each_rendered [simp]: "calls (each_rendered is) = is"
  by (induction "is") simp_all


















subsection \<open>The box: one phase-complete call per cutting phase\<close>











subsection \<open>The stool: one phase-complete call for the drilling phase\<close>





















subsection \<open>Completion flags never revert\<close>























subsection \<open>Disjoint hit zones and sweeps\<close>


























subsection \<open>Hammering\<close>

lemma boardPosition_hammerTaps:
  "boardPosition boardRef (s\<lparr>hammerTaps := n\<rparr>) = boardPosition boardRef s"
  by (cases boardRef) (simp_all add: boardPosition_def)

lemma setBoardPosition_fields:
  "assemblyState (setBoardPosition boardRef v s) = assemblyState s"
  "hammerTaps (setBoardPosition boardRef v s) = hammerTaps s"
  by (cases boardRef; simp add: setBoardPosition_def)+

lemma handleHammerClick_tap:
  assumes "assemblyState s = Hammering" and "hammerTaps s = n" and "n < 3"
    and "boardPosition boardRef s = Some p"
  shows "assemblyState (fst (handleHammerClick s targetY boardRef))
           = (if n = 2 then Done else Hammering)"
    and "hammerTaps (fst (handleHammerClick s targetY boardRef)) = Suc n"
    and "boardPosition boardRef (fst (handleHammerClick s targetY boardRef))
           = Some (Vector3 (vx p) (targetY + GAP_HEIGHT * (1 - real (Suc n) / 3)) (vz p))"
    and "snd (handleHammerClick s targetY boardRef)
           = (if n = 2 then [PhaseCompleteAfter 500] else [])"
proof -
  have gap: "max 0 (GAP_HEIGHT * (1 - real (Suc n) / 3)) = GAP_HEIGHT * (1 - real (Suc n) / 3)"
    using assms(3) by (simp add: GAP_HEIGHT_def max_def)
  have n: "3 \<le> Suc n \<longleftrightarrow> n = 2"
    using assms(3) by auto
  show "assemblyState (fst (handleHammerClick s targetY boardRef))
           = (if n = 2 then Done else Hammering)"
    using assms(1,2,4) n
    by (simp add: handleHammerClick_def Let_def HAMMER_TAPS_REQUIRED_def
        boardPosition_hammerTaps setBoardPosition_fields)
  show "hammerTaps (fst (handleHammerClick s targetY boardRef)) = Suc n"
    using assms(1,2,4)
    by (simp add: handleHammerClick_def Let_def HAMMER_TAPS_REQUIRED_def
        boardPosition_hammerTaps setBoardPosition_fields)
  show "boardPosition boardRef (fst (handleHammerClick s targetY boardRef))
           = Some (Vector3 (vx p) (targetY + GAP_HEIGHT * (1 - real (Suc n) / 3)) (vz p))"
    using assms(1,2,4) gap
    by (cases boardRef)
      (simp_all add: handleHammerClick_def Let_def HAMMER_TAPS_REQUIRED_def
        boardPosition_def setBoardPosition_def)
  show "snd (handleHammerClick s targetY boardRef)
           = (if n = 2 then [PhaseCompleteAfter 500] else [])"
    using assms(1,2,4) n
    by (simp add: handleHammerClick_def Let_def HAMMER_TAPS_REQUIRED_def)
qed

lemma hammer_taps_run:
  assumes "assemblyState s = Hammering" and "hammerTaps s = 0"
    and "boardPosition boardRef s = Some p"
  shows "k \<le> 3 \<Longrightarrow>
     hammerTaps (((\<lambda>s. fst (handleHammerClick s targetY boardRef)) ^^ k) s) = k
   \<and> assemblyState (((\<lambda>s. fst (handleHammerClick s targetY boardRef)) ^^ k) s)
        = (if k = 3 then Done else Hammering)
   \<and> boardPosition boardRef (((\<lambda>s. fst (handleHammerClick s targetY boardRef)) ^^ k) s)
        = (if k = 0 then Some p
           else Some (Vector3 (vx p) (targetY + GAP_HEIGHT * (1 - real k / 3)) (vz p)))"
proof (induction k)
  case 0
  with assms show ?case by simp
next
  case (Suc k)
  let ?s = "((\<lambda>s. fst (handleHammerClick s targetY boardRef)) ^^ k) s"
  from Suc have k: "k < 3" and IH: "hammerTaps ?s = k" "assemblyState ?s = Hammering"
    "boardPosition boardRef ?s
        = (if k = 0 then Some p
           else Some (Vector3 (vx p) (targetY + GAP_HEIGHT * (1 - real k / 3)) (vz p)))"
    by auto
  obtain q where q: "boardPosition boardRef ?s = Some q" "vx q = vx p" "vz q = vz p"
    using IH(3) by (cases "k = 0") auto
  from handleHammerClick_tap [OF IH(2) IH(1) k q(1), of targetY] q(2,3) k
  show ?case
    by auto
qed

lemma handleHammer_tap:
  assumes "legsState t = LegsHammering" and "stoolHammerTaps t = n" and "n < 3"
    and "legsY t = Some y"
  shows "legsState (fst (handleHammer t)) = (if n = 2 then LegsDone else LegsHammering)"
    and "stoolHammerTaps (fst (handleHammer t)) = Suc n"
    and "legsY (fst (handleHammer t)) = Some (- (0.05 + 0.45 * (1 - real (Suc n) / 3)))"
    and "snd (handleHammer t) = (if n = 2 then [PhaseCompleteAfter 600] else [])"
proof -
  have n: "3 \<le> Suc n \<longleftrightarrow> n = 2"
    using assms(3) by auto
  show "legsState (fst (handleHammer t)) = (if n = 2 then LegsDone else LegsHammering)"
    using assms(1,2,4) n by (simp add: handleHammer_def Let_def HAMMER_TAPS_REQUIRED_def)
  show "stoolHammerTaps (fst (handleHammer t)) = Suc n"
    using assms(1,2,4) by (simp add: handleHammer_def Let_def HAMMER_TAPS_REQUIRED_def)
  show "legsY (fst (handleHammer t)) = Some (- (0.05 + 0.45 * (1 - real (Suc n) / 3)))"
    using assms(1,2,4)
    by (simp add: handleHammer_def Let_def HAMMER_TAPS_REQUIRED_def field_simps)
  show "snd (handleHammer t) = (if n = 2 then [PhaseCompleteAfter 600] else [])"
    using assms(1,2,4) n by (simp add: handleHammer_def Let_def HAMMER_TAPS_REQUIRED_def)
qed

lemma stool_taps_run:
  assumes "legsState t = LegsHammering" and "stoolHammerTaps t = 0" and "legsY t = Some y"
  shows "k \<le> 3 \<Longrightarrow>
     stoolHammerTaps (((\<lambda>t. fst (handleHammer t)) ^^ k) t) = k
   \<and> legsState (((\<lambda>t. fst (handleHammer t)) ^^ k) t) = (if k = 3 then LegsDone else LegsHammering)
   \<and> legsY (((\<lambda>t. fst (handleHammer t)) ^^ k) t)
        = (if k = 0 then Some y else Some (- (0.05 + 0.45 * (1 - real k / 3))))"
proof (induction k)
  case 0
  with assms show ?case by simp
next
  case (Suc k)
  let ?t = "((\<lambda>t. fst (handleHammer t)) ^^ k) t"
  from Suc have k: "k < 3" and IH: "stoolHammerTaps ?t = k" "legsState ?t = LegsHammering"
    by auto
  from Suc obtain y' where y': "legsY ?t = Some y'"
    by (cases "k = 0") auto
  from handleHammer_tap [OF IH(2) IH(1) k y'] k show ?case
    by auto
qed

text \<open>
  How the hammering sub-state is entered: a drag that brings the part to within 0.05 of
  the stop height snaps it to \<open>targetY + GAP_HEIGHT\<close> (for the legs: to world height 0.5)
  and leaves the tap count as the phase effect set it.
\<close>

lemma handleAssemblyDrag_snaps:
  assumes "assemblyState s = Dragging" and "boardPosition boardRef s = Some p"
    and "pointY + 1 \<le> targetY + GAP_HEIGHT + 0.05"
  shows "assemblyState (fst (handleAssemblyDrag s pointY boardRef targetY)) = Hammering"
    and "hammerTaps (fst (handleAssemblyDrag s pointY boardRef targetY)) = hammerTaps s"
    and "map_option vy (boardPosition boardRef (fst (handleAssemblyDrag s pointY boardRef targetY)))
           = Some (targetY + GAP_HEIGHT)"
proof -
  have "max (targetY + GAP_HEIGHT) (min (pointY + 1) (targetY + 3)) \<le> targetY + GAP_HEIGHT + 0.05"
    using assms(3) by (simp add: GAP_HEIGHT_def)
  then show "assemblyState (fst (handleAssemblyDrag s pointY boardRef targetY)) = Hammering"
    and "hammerTaps (fst (handleAssemblyDrag s pointY boardRef targetY)) = hammerTaps s"
    and "map_option vy (boardPosition boardRef (fst (handleAssemblyDrag s pointY boardRef targetY)))
           = Some (targetY + GAP_HEIGHT)"
    using assms(1,2)
    by (cases boardRef; simp add: handleAssemblyDrag_def Let_def boardPosition_def
        setBoardPosition_def)+
qed

lemma handleLegDrag_snaps:
  assumes "legsState t = LegsDragging" and "legsY t = Some y" and "pointY \<le> 0.6"
  shows "legsState (fst (handleLegDrag t pointY)) = LegsHammering"
    and "stoolHammerTaps (fst (handleLegDrag t pointY)) = stoolHammerTaps t"
    and "legsY (fst (handleLegDrag t pointY)) = Some (- 0.5)"
  using assms by (simp_all add: handleLegDrag_def Let_def)

text \<open>
  C4. In the hammering sub-state of an assembly phase (taps counted from zero, the part
  attached), after the \<open>k\<close>-th tap, \<open>1 \<le> k \<le> 3\<close>, the seated board of the box is at height
  \<open>targetY + GAP_HEIGHT \<times> (1 - k / HAMMER_TAPS_REQUIRED)\<close> with \<open>HAMMER_TAPS_REQUIRED = 3\<close>;
  after exactly the third tap the gap is zero, the board is at \<open>targetY\<close>, the assembly
  state is done and the phase-complete call is scheduled (on no earlier tap). The stool's
  legs follow the same law with target \<open>0.05\<close> and gap \<open>0.45\<close> in world height (the local
  \<open>y\<close> of the inverted group is its negation).
\<close>

theorem C4_hammer_taps:
  assumes "assemblyState s = Hammering" and "hammerTaps s = 0"
    and "boardPosition boardRef s = Some p"
    and "legsState t = LegsHammering" and "stoolHammerTaps t = 0" and "legsY t = Some y"
    and "1 \<le> k" and "k \<le> 3"
  shows "HAMMER_TAPS_REQUIRED = 3
    \<and> map_option vy
         (boardPosition boardRef (((\<lambda>s. fst (handleHammerClick s targetY boardRef)) ^^ k) s))
        = Some (targetY + GAP_HEIGHT * (1 - real k / real HAMMER_TAPS_REQUIRED))
    \<and> assemblyState (((\<lambda>s. fst (handleHammerClick s targetY boardRef)) ^^ k) s)
        = (if k = 3 then Done else Hammering)
    \<and> snd (handleHammerClick
             (((\<lambda>s. fst (handleHammerClick s targetY boardRef)) ^^ (k - 1)) s) targetY boardRef)
        = (if k = 3 then [PhaseCompleteAfter 500] else [])
    \<and> map_option vy
         (boardPosition boardRef (((\<lambda>s. fst (handleHammerClick s targetY boardRef)) ^^ 3) s))
        = Some targetY
    \<and> assemblyState (((\<lambda>s. fst (handleHammerClick s targetY boardRef)) ^^ 3) s) = Done
    \<and> legsY (((\<lambda>t. fst (handleHammer t)) ^^ k) t)
        = Some (- (0.05 + 0.45 * (1 - real k / real HAMMER_TAPS_REQUIRED)))
    \<and> legsState (((\<lambda>t. fst (handleHammer t)) ^^ k) t)
        = (if k = 3 then LegsDone else LegsHammering)
    \<and> legsY (((\<lambda>t. fst (handleHammer t)) ^^ 3) t) = Some (- 0.05)"
proof -
  let ?tap = "\<lambda>s. fst (handleHammerClick s targetY boardRef)"
  note box = hammer_taps_run [OF assms(1-3), of _ targetY]
  note stool = stool_taps_run [OF assms(4-6)]
  have k1: "k - 1 \<le> 3" "k - 1 < 3" "Suc (k - 1) = k" "k \<noteq> 0"
    using assms(7,8) by auto
  obtain q where q: "boardPosition boardRef ((?tap ^^ (k - 1)) s) = Some q"
    using box [OF k1(1)] by (cases "k - 1 = 0") auto
  have fire: "snd (handleHammerClick ((?tap ^^ (k - 1)) s) targetY boardRef)
        = (if k = 3 then [PhaseCompleteAfter 500] else [])"
    using handleHammerClick_tap(4) [of "(?tap ^^ (k - 1)) s" "k - 1" boardRef q targetY]
      box [OF k1(1)] k1 q assms(8)
    by (auto split: if_splits)
  show ?thesis
    using box [OF assms(8)] box [of 3] stool [OF assms(8)] stool [of 3] fire k1(4)
    by (simp add: HAMMER_TAPS_REQUIRED_def)
qed

text \<open>The second tap on the front board (target height 0) and on the stool's legs.\<close>

theorem C4_hammer_taps_witness:
  "assemblyState (BoxProject_init\<lparr>assemblyState := Hammering\<rparr>) = Hammering
   \<and> (1::nat) \<le> 2 \<and> (2::nat) \<le> 3
   \<and> map_option vy (boardPosition TailBoardA
        (((\<lambda>s. fst (handleHammerClick s TABLE_OFFSET TailBoardA)) ^^ 2)
           (BoxProject_init\<lparr>assemblyState := Hammering\<rparr>))) = Some 0.05
   \<and> assemblyState (((\<lambda>s. fst (handleHammerClick s TABLE_OFFSET TailBoardA)) ^^ 2)
        (BoxProject_init\<lparr>assemblyState := Hammering\<rparr>)) = Hammering
   \<and> legsY (((\<lambda>t. fst (handleHammer t)) ^^ 2)
        (StoolProject_init\<lparr>legsState := LegsHammering, legsY := Some (- 0.5)\<rparr>)) = Some (- 0.2)"
proof -
  let ?s = "BoxProject_init\<lparr>assemblyState := Hammering\<rparr>"
  let ?t = "StoolProject_init\<lparr>legsState := LegsHammering, legsY := Some (- 0.5)\<rparr>"
  have s: "assemblyState ?s = Hammering" "hammerTaps ?s = 0"
    "boardPosition TailBoardA ?s = Some (Vector3 0 2.5 0)"
    by (simp_all add: BoxProject_init_def boardPosition_def)
  have t: "legsState ?t = LegsHammering" "stoolHammerTaps ?t = 0" "legsY ?t = Some (- 0.5)"
    by (simp_all add: StoolProject_init_def)
  have k: "(1::nat) \<le> 2" "(2::nat) \<le> 3"
    by simp_all
  from C4_hammer_taps [OF s t k, of TABLE_OFFSET] s(1) show ?thesis
    by (simp add: HAMMER_TAPS_REQUIRED_def GAP_HEIGHT_def TABLE_OFFSET_def)
qed

subsection \<open>Saplings take priority\<close>

lemma distanceTo_less:
  assumes "0 < r"
  shows "distanceTo a b < r \<longleftrightarrow> (fst a - fst b)\<^sup>2 + (snd a - snd b)\<^sup>2 < r\<^sup>2"
proof -
  have "sqrt ((fst a - fst b)\<^sup>2 + (snd a - snd b)\<^sup>2) < sqrt (r\<^sup>2)
          \<longleftrightarrow> (fst a - fst b)\<^sup>2 + (snd a - snd b)\<^sup>2 < r\<^sup>2"
    by (rule real_sqrt_less_iff)
  moreover have "sqrt (r\<^sup>2) = r"
    using assms by simp
  ultimately show ?thesis
    by (simp add: distanceTo_def)
qed

lemma forEach_tree_hittingSapling:
  "forEach_tree sawPos True its acc = acc"
proof (induction its arbitrary: acc)
  case Nil
  then show ?case by simp
next
  case (Cons it its)
  obtain idx tree where it: "it = (idx, tree)" by (cases it)
  obtain a b c d e f where acc: "acc = (a, b, c, d, e, f)" by (cases acc)
  show ?case
    by (simp add: it acc Cons.IH)
qed

lemma find_touchesSapling:
  assumes "sapling \<in> set saplings" and "touchesSapling sawPos sapling"
  shows "\<exists>hit. find (touchesSapling sawPos) saplings = Some hit"
proof (cases "find (touchesSapling sawPos) saplings")
  case None
  then have "\<not> touchesSapling sawPos sapling"
    using assms(1) by (simp only: find_None_iff) blast
  with assms(2) show ?thesis by simp
next
  case (Some hit)
  then show ?thesis by blast
qed

text \<open>
  C9. In the timber phase, whenever the chainsaw tip is in a sapling's protected zone
  (horizontal distance to some sapling below 0.8 and tip height below 1.5), the
  \<open>handleCut\<close> call leaves the cut progress, the cut flags and the fall rotations of the
  big trees as they were, asks for no burst, yields no wood, schedules no phase completion
  and draws no random number, and it shows the sapling warning; this is so wherever the tip
  is, also inside a big tree's cutting radius at a valid cutting height.
\<close>

theorem C9_sapling_priority:
  assumes "sapling \<in> set saplings"
    and "distanceTo (vx sawPos, vz sawPos) sapling < 0.8" and "vy sawPos < 1.5"
  shows "cutProgress (fst (fst (TimberStage_handleCut g s sawPos))) = cutProgress s
    \<and> treesCut (fst (fst (TimberStage_handleCut g s sawPos))) = treesCut s
    \<and> fallRotation (fst (fst (TimberStage_handleCut g s sawPos))) = fallRotation s
    \<and> saplingWarningShow (fst (fst (TimberStage_handleCut g s sawPos)))
    \<and> snd (fst (TimberStage_handleCut g s sawPos)) = []
    \<and> snd (TimberStage_handleCut g s sawPos) = g"
proof -
  have "touchesSapling sawPos sapling"
    using assms(2,3) by (simp add: touchesSapling_def)
  from find_touchesSapling [OF assms(1) this]
  obtain hit where "find (touchesSapling sawPos) saplings = Some hit" ..
  then show ?thesis
    by (simp add: TimberStage_handleCut_def Let_def forEach_tree_hittingSapling)
qed

text \<open>
  The tip at \<open>(-2.1, 1, -1.4)\<close> is within 1.2 of the first tree at a valid height and
  within 0.8 of the sapling at \<open>(-1.5, -1)\<close>: no progress. At \<open>(-3, 1, -2)\<close>, away from
  every sapling, the same call adds 2 to the first tree's progress.
\<close>

theorem C9_sapling_priority_witness:
  "(- 1.5, - 1) \<in> set saplings
   \<and> distanceTo (- 2.1, - 1.4) (- 1.5, - 1) < 0.8
   \<and> distanceTo (- 2.1, - 1.4) (trees ! 0) < 1.2
   \<and> cutProgress (fst (fst (TimberStage_handleCut (\<lambda>n. 0) TimberStage_init
         (Vector3 (- 2.1) 1 (- 1.4))))) = [0, 0]
   \<and> snd (fst (TimberStage_handleCut (\<lambda>n. 0) TimberStage_init (Vector3 (- 2.1) 1 (- 1.4)))) = []
   \<and> cutProgress (fst (fst (TimberStage_handleCut (\<lambda>n. 0) TimberStage_init
         (Vector3 (- 3) 1 (- 2))))) = [2, 0]"
proof -
  have mem: "(- 1.5, - 1) \<in> set saplings"
    by (simp add: saplings_def)
  have near: "distanceTo (vx (Vector3 (- 2.1) 1 (- 1.4)), vz (Vector3 (- 2.1) 1 (- 1.4)))
                (- 1.5, - 1) < 0.8"
    using distanceTo_less [of "0.8" "(- 2.1, - 1.4)" "(- 1.5, - 1)"]
    by (simp add: power2_eq_square)
  have low: "vy (Vector3 (- 2.1) 1 (- 1.4)) < 1.5"
    by simp
  have tree: "distanceTo (- 2.1, - 1.4) (trees ! 0) < 1.2"
    using distanceTo_less [of "1.2" "(- 2.1, - 1.4)" "(- 3, - 2)"]
    by (simp add: trees_def power2_eq_square)
  have none: "find (touchesSapling (Vector3 (- 3) 1 (- 2))) saplings = None"
    using distanceTo_less [of "0.8" "(- 3, - 2)"]
    by (simp add: find_None_iff saplings_def touchesSapling_def power2_eq_square)
  have "distanceTo (- 3, - 2) (- 3, - 2) < 1.2" "\<not> distanceTo (- 3, - 2) (3, 0) < 1.2"
    using distanceTo_less [of "1.2" "(- 3, - 2)"]
    by (simp_all add: power2_eq_square)
  then have free: "cutProgress (fst (fst (TimberStage_handleCut (\<lambda>n. 0) TimberStage_init
         (Vector3 (- 3) 1 (- 2))))) = [2, 0]"
    by (simp add: TimberStage_handleCut_def Let_def none trees_def TimberStage_init_def
        Math_random_def every_def)
  from C9_sapling_priority [OF mem near low, of "\<lambda>n. 0" TimberStage_init] mem near tree free
  show ?thesis
    by (simp add: TimberStage_init_def)
qed

subsection \<open>The particle pool\<close>

lemma activate_active: "active (fst (activate pos p g))"
  by (simp add: activate_def split_def Let_def)

lemma spawn_loop_length: "length (fst (spawn_loop batch pos ps k g)) = length ps"
  by (induction ps arbitrary: k g) (simp_all add: split_def)

lemma spawn_loop_saturated:
  "\<forall>p\<in>set ps. active p \<Longrightarrow> spawn_loop batch pos ps k g = (ps, g)"
  by (induction ps arbitrary: k g) simp_all

lemma spawn_loop_active:
  "length (filter active (fst (spawn_loop batch pos ps k g)))
     = length (filter active ps)
       + min (max 1 (batch - k)) (length (filter (\<lambda>p. \<not> active p) ps))"
proof (induction ps arbitrary: k g)
  case Nil
  then show ?case by simp
next
  case (Cons p ps)
  show ?case
  proof (cases "active p")
    case True
    with Cons.IH [of k g] show ?thesis
      by (simp add: split_def)
  next
    case False
    note inactive = this
    show ?thesis
    proof (cases "batch \<le> k + 1")
      case True
      with inactive show ?thesis
        using activate_active [of pos p g] by (simp add: split_def)
    next
      case False
      with inactive Cons.IH [of "k + 1" "snd (activate pos p g)"] show ?thesis
        using activate_active [of pos p g] by (simp add: split_def)
    qed
  qed
qed

lemma frame_particle_active: "active (fst (frame_particle dt p g)) = active p"
  by (simp add: frame_particle_def Let_def split_def)

lemma frame_loop_active: "map active (fst (frame_loop dt ps g)) = map active ps"
  by (induction ps arbitrary: g) (simp_all add: split_def frame_particle_active)

lemma frame_loop_length: "length (fst (frame_loop dt ps g)) = length ps"
  using frame_loop_active [of dt ps g] by (metis length_map)

lemma interval_tick_length:
  "length (particles (fst (interval_tick n s g))) = length (particles s)"
  by (simp add: interval_tick_def Let_def split_def spawn_loop_length)

lemma sawdust_step_length:
  "length (particles (fst (sawdust_step op st))) = length (particles (fst st))"
proof -
  obtain s g where st: "st = (s, g)" by (cases st)
  show ?thesis
    by (cases op)
      (simp_all add: st spawnBurst_def interval_tick_length clear_def Let_def useFrame_def
        split_def frame_loop_length)
qed

lemma sawdust_fold_length:
  "length (particles (fst (fold sawdust_step ops st))) = length (particles (fst st))"
  by (induction ops arbitrary: st) (simp_all add: sawdust_step_length)

lemma sawdust_run_length: "length (particles (sawdust_run ops g)) = count"
  by (simp add: sawdust_run_def sawdust_fold_length SawdustSystem_init_def)

lemma inactive_count:
  "length (filter (\<lambda>p. \<not> active p) ps) = length ps - length (filter active ps)"
  using sum_length_filter_compl [of active ps] by simp

lemma interval_tick_active:
  assumes "meshAttached s" and "n < length (intervals s)"
  shows "activeCount (fst (interval_tick n s g))
           = activeCount s + min 4 (length (particles s) - activeCount s)"
  using assms
  by (simp add: interval_tick_def Let_def split_def activeCount_def spawn_loop_active
      inactive_count burstCount_def duration_def)

lemma interval_tick_saturated:
  assumes "\<forall>p\<in>set (particles s). active p"
  shows "particles (fst (interval_tick n s g)) = particles s"
    and "snd (interval_tick n s g) = g"
  using assms
  by (simp_all add: interval_tick_def Let_def split_def spawn_loop_saturated)

lemma clear_particles:
  "length (particles (clear s)) = length (particles s)"
  "\<forall>p\<in>set (particles (clear s)). \<not> active p"
  "activeCount (clear s) = 0"
  by (simp_all add: clear_def Let_def activeCount_def)

text \<open>
  C5. The pool of a SawdustSystem has 1200 particles in every state it can reach, through
  any sequence of \<open>spawnBurst\<close> calls, interval firings, \<open>clear\<close> calls, frames and an
  unmount, so the number of active particles never exceeds 1200. One interval firing
  activates four particles or, when fewer are inactive, only those: the pool does not grow,
  and on a saturated pool the firing changes no particle. \<open>clear\<close> leaves every particle
  inactive and the pool as long as it was.
\<close>

theorem C5_particle_pool:
  "count = 1200
   \<and> length (particles (sawdust_run ops g)) = count
   \<and> activeCount (sawdust_run ops g) \<le> count
   \<and> particles (spawnBurst pos s) = particles s
   \<and> length (particles (fst (interval_tick n s g'))) = length (particles s)
   \<and> (meshAttached s \<and> n < length (intervals s) \<longrightarrow>
        activeCount (fst (interval_tick n s g'))
          = activeCount s + min 4 (length (particles s) - activeCount s))
   \<and> ((\<forall>p\<in>set (particles s). active p) \<longrightarrow>
        particles (fst (interval_tick n s g')) = particles s)
   \<and> length (particles (clear s)) = length (particles s)
   \<and> (\<forall>p\<in>set (particles (clear s)). \<not> active p)
   \<and> activeCount (clear s) = 0"
proof -
  have "activeCount (sawdust_run ops g) \<le> length (particles (sawdust_run ops g))"
    by (simp add: activeCount_def)
  then have "activeCount (sawdust_run ops g) \<le> count"
    by (simp only: sawdust_run_length)
  moreover have "count = 1200"
    by (simp add: count_def)
  ultimately show ?thesis
    using interval_tick_active [of s n g'] interval_tick_saturated(1) [of s n g']
      clear_particles [of s]
    by (simp only: sawdust_run_length interval_tick_length) (simp add: spawnBurst_def)
qed

text \<open>
  The first firing of a burst on the empty pool activates four particles; on a pool whose
  particles are all active it changes nothing.
\<close>

theorem C5_particle_pool_witness:
  "meshAttached (spawnBurst (Vector3 0 0.4 0) SawdustSystem_init)
   \<and> 0 < length (intervals (spawnBurst (Vector3 0 0.4 0) SawdustSystem_init))
   \<and> activeCount (fst (interval_tick 0 (spawnBurst (Vector3 0 0.4 0) SawdustSystem_init)
        (\<lambda>n. 0))) = 4
   \<and> particles (fst (interval_tick 0
        (SawdustSystem_init
           \<lparr>particles := map (\<lambda>p. p\<lparr>active := True\<rparr>) (particles SawdustSystem_init)\<rparr>)
        (\<lambda>n. 0)))
       = map (\<lambda>p. p\<lparr>active := True\<rparr>) (particles SawdustSystem_init)
   \<and> activeCount (sawdust_run [OpSpawnBurst (Vector3 0 0.4 0), OpIntervalTick 0, OpClear]
        (\<lambda>n. 0)) \<le> 1200"
proof -
  let ?s = "spawnBurst (Vector3 0 0.4 0) SawdustSystem_init"
  let ?full = "SawdustSystem_init
           \<lparr>particles := map (\<lambda>p. p\<lparr>active := True\<rparr>) (particles SawdustSystem_init)\<rparr>"
  have pre: "meshAttached ?s \<and> 0 < length (intervals ?s)"
    by (simp add: spawnBurst_def SawdustSystem_init_def)
  have empty: "activeCount ?s = 0"
    by (simp add: activeCount_def spawnBurst_def SawdustSystem_init_def)
  have len: "length (particles ?s) = count"
    by (simp add: spawnBurst_def SawdustSystem_init_def)
  have full: "\<forall>p\<in>set (particles ?full). active p"
    by simp
  have four: "min 4 (count - 0) = (4::nat)"
    by (simp add: count_def)
  from C5_particle_pool [of "[OpSpawnBurst (Vector3 0 0.4 0), OpIntervalTick 0, OpClear]"
      "\<lambda>n. 0" "Vector3 0 0 0" ?s 0 "\<lambda>n. 0"] pre
  have a: "activeCount (fst (interval_tick 0 ?s (\<lambda>n. 0))) = 4"
    and c: "activeCount (sawdust_run [OpSpawnBurst (Vector3 0 0.4 0), OpIntervalTick 0, OpClear]
        (\<lambda>n. 0)) \<le> 1200"
    by (simp_all only: empty len four add_0)
  from C5_particle_pool [of "[]" "\<lambda>n. 0" "Vector3 0 0 0" ?full 0 "\<lambda>n. 0"] full
  have b: "particles (fst (interval_tick 0 ?full (\<lambda>n. 0))) = particles ?full"
    by blast
  have "particles ?full = map (\<lambda>p. p\<lparr>active := True\<rparr>) (particles SawdustSystem_init)"
    by simp
  with a b c pre show ?thesis
    by (simp only:) 
qed

subsection \<open>The order of the phases\<close>
















subsection \<open>Restarting a project\<close>

lemma activeCount_init: "activeCount SawdustSystem_init = 0"
  by (simp add: activeCount_def SawdustSystem_init_def)

lemma mount_reset: "targets_reset (mount k phase)"
proof (cases k)
  case KTimberStage
  then show ?thesis
    by (simp add: mount_def TimberStage_init_def activeCount_init)
next
  case KStoolProject
  then show ?thesis
    by (simp add: mount_def StoolProject_effect_def StoolProject_legs_def StoolProject_init_def
        activeCount_init)
next
  case KBoxProject
  then show ?thesis
    by (simp add: mount_def BoxProject_effect_def BoxProject_init_def Let_def
        activeCount_init clear_particles)
qed





lemma Session_init_reset: "targets_reset (sessMounted Session_init)"
  by (simp add: Session_init_def mount_reset)












end
